theory Spec2Isabelle
  imports Complex_Main "HOL-Library.Char_ord" "HOL-Library.List_Lexorder"
begin

section \<open>GnuCash Helper: the ledger functions and the web routes that call them\<close>

text \<open>
  The development embeds \<^verbatim>\<open>gnucash_helper.py\<close> (account lookup, account creation,
  transaction listing, transaction insertion, configuration reads) and the two routes of
  \<^verbatim>\<open>app.py\<close> that compute something (\<^verbatim>\<open>transactions\<close>, \<^verbatim>\<open>balances\<close>).

  Conventions.
  \<^item> A Python \<^verbatim>\<open>str\<close> is a \<open>string\<close> holding its UTF-8 bytes; comparing two such
    lists bytewise is comparing the strings by code point, which is what Python does.
  \<^item> A function that can return, raise or leave the process has a result of type
    \<open>'a outcome\<close>.
  \<^item> The ledger library (piecash) is not part of the program. What it answers during a
    call is a parameter of type \<open>lib\<close>, so that every theorem holds whatever the
    library does; \<open>lib_ok\<close> is the instance in which every lookup finds the first
    match and nothing raises.
  \<^item> Calls to the logger are modelled where the configuration is read. Elsewhere they
    are left out: they return nothing and no computed value depends on them.
\<close>

subsection \<open>Python values\<close>

datatype exn =
    KeyError string
  | TypeError string
  | ValueError string
  | GnucashException string
  | OtherError string

datatype 'a outcome = Returns 'a | Raises exn | Exits int

text \<open>\<^verbatim>\<open>str.lower()\<close>, on the ASCII letters; other bytes are left as they are.\<close>

definition lower_char :: "char \<Rightarrow> char" where
  "lower_char c =
     (case map_of (zip ''ABCDEFGHIJKLMNOPQRSTUVWXYZ'' ''abcdefghijklmnopqrstuvwxyz'') c of
        Some l \<Rightarrow> l
      | None \<Rightarrow> c)"

definition lower :: "string \<Rightarrow> string" where
  "lower s = map lower_char s"

text \<open>
  A finite \<^verbatim>\<open>decimal.Decimal\<close>: sign, coefficient and exponent, denoting
  \<open>(-1)^negative * coefficient * 10^exponent\<close>. Negative zero is a value of its own, as in
  Python. NaN and the infinities are not covered, and coefficients are taken to fit the
  context precision (28 digits), where unary minus does not round.
\<close>

record decimal =
  negative :: bool
  coefficient :: nat
  exponent :: int

definition dec_val :: "decimal \<Rightarrow> rat" where
  "dec_val d =
     (let m = (if 0 \<le> exponent d then of_nat (coefficient d) * 10 ^ nat (exponent d)
               else of_nat (coefficient d) / 10 ^ nat (- exponent d))
      in if negative d then - m else m)"

text \<open>\<^verbatim>\<open>Decimal.is_signed()\<close>: the sign bit, set for negative zero too.\<close>

definition is_signed :: "decimal \<Rightarrow> bool" where
  "is_signed d = negative d"

text \<open>Unary minus: a zero of either sign becomes the positive zero.\<close>

definition dec_neg :: "decimal \<Rightarrow> decimal" where
  "dec_neg d = (if coefficient d = 0 then d\<lparr>negative := False\<rparr>
                else d\<lparr>negative := \<not> negative d\<rparr>)"

subsection \<open>The ledger\<close>

type_synonym commodity = string

record account =
  name :: string
  fullname :: string
  parent :: "string option"
  acct_type :: string
  acct_commodity :: commodity

record split =
  split_value :: decimal
  split_account :: account

record transaction =
  currency :: "commodity option"
  description :: string
  enter_date :: string
  splits :: "split list"

record ledger =
  accounts :: "account list"
  transactions :: "transaction list"

text \<open>
  An open book: the objects of the session, which \<^verbatim>\<open>book.accounts\<close> and
  \<^verbatim>\<open>book.transactions\<close> list, and the ledger last written to the file.
  \<^verbatim>\<open>book.save()\<close> writes the first over the second.
\<close>

record book =
  session :: ledger
  stored :: ledger

record lib =
  currencies :: "ledger \<Rightarrow> string \<Rightarrow> exn + commodity option"
  commodities_get :: "ledger \<Rightarrow> string \<Rightarrow> exn + commodity option"
  accounts_get :: "ledger \<Rightarrow> string \<Rightarrow> exn + account option"
  construct :: "exn option"
  save :: "ledger \<Rightarrow> exn option"
  now :: string
  get_balance :: "ledger \<Rightarrow> account \<Rightarrow> decimal"

definition book_save :: "lib \<Rightarrow> book \<Rightarrow> exn + book" where
  "book_save L b = (case save L (session b) of
       Some e \<Rightarrow> Inl e
     | None \<Rightarrow> Inr (b\<lparr>stored := session b\<rparr>))"

subsection \<open>get\_account\<close>

fun find_account :: "string \<Rightarrow> account list \<Rightarrow> account option" where
  "find_account search_name [] = None"
| "find_account search_name (a # as) =
     (if lower (fullname a) = search_name then Some a else find_account search_name as)"

definition get_account :: "string \<Rightarrow> book \<Rightarrow> account option" where
  "get_account account_name b = find_account (lower account_name) (accounts (session b))"

subsection \<open>add\_transaction\<close>

text \<open>
  The result is \<open>Some True\<close>, \<open>Some False\<close> or \<open>None\<close> for Python's \<^verbatim>\<open>True\<close>,
  \<^verbatim>\<open>False\<close> and \<^verbatim>\<open>None\<close>. The body of the \<^verbatim>\<open>try\<close> is \<open>add_transaction_body\<close>;
  \<open>add_transaction\<close> adds the two handlers.
\<close>

definition new_transaction ::
  "lib \<Rightarrow> commodity option \<Rightarrow> string \<Rightarrow> decimal \<Rightarrow> account \<Rightarrow> account \<Rightarrow> transaction" where
  "new_transaction L usd descr amount credit debit =
     \<lparr>currency = usd, description = descr, enter_date = now L,
      splits = [\<lparr>split_value = amount, split_account = credit\<rparr>,
                \<lparr>split_value = dec_neg amount, split_account = debit\<rparr>]\<rparr>"

definition add_to_session :: "transaction \<Rightarrow> book \<Rightarrow> book" where
  "add_to_session t b =
     b\<lparr>session := (session b)\<lparr>transactions := transactions (session b) @ [t]\<rparr>\<rparr>"

definition add_transaction_body ::
  "lib \<Rightarrow> book \<Rightarrow> string \<Rightarrow> decimal \<Rightarrow> string \<Rightarrow> string \<Rightarrow> bool option outcome \<times> book" where
  "add_transaction_body L b descr amount debit_acct credit_acct =
     (let credit = get_account credit_acct b;
          debit = get_account debit_acct b
      in case (credit, debit) of
           (Some c, Some d) \<Rightarrow>
             (case currencies L (session b) ''USD'' of
                Inl e \<Rightarrow> (Raises e, b)
              | Inr usd \<Rightarrow>
                 (case construct L of
                    Some e \<Rightarrow> (Raises e, b)
                  | None \<Rightarrow>
                     (let b1 = add_to_session (new_transaction L usd descr amount c d) b
                      in case book_save L b1 of
                           Inl e \<Rightarrow> (Raises e, b1)
                         | Inr b2 \<Rightarrow> (Returns (Some True), b2))))
         | (Some c, None) \<Rightarrow> (Returns (Some False), b)
         | (None, Some d) \<Rightarrow> (Returns (Some False), b)
         | (None, None) \<Rightarrow> (Returns None, b))"

definition add_transaction ::
  "lib \<Rightarrow> book \<Rightarrow> string \<Rightarrow> decimal \<Rightarrow> string \<Rightarrow> string \<Rightarrow> bool option outcome \<times> book" where
  "add_transaction L b descr amount debit_acct credit_acct =
     (case add_transaction_body L b descr amount debit_acct credit_acct of
        (Raises (GnucashException m), b') \<Rightarrow> (Returns (Some False), b')
      | (Raises (ValueError m), b') \<Rightarrow> (Returns (Some False), b')
      | r \<Rightarrow> r)"

subsection \<open>Numbers as text\<close>

definition digit_char :: "nat \<Rightarrow> char" where
  "digit_char d = ''0123456789'' ! d"

fun digits10 :: "nat \<Rightarrow> string" where
  "digits10 n = (if n < 10 then [digit_char n] else digits10 (n div 10) @ [digit_char (n mod 10)])"

declare digits10.simps [simp del]

definition two_digits :: "nat \<Rightarrow> string" where
  "two_digits k = [digit_char (k div 10), digit_char (k mod 10)]"

text \<open>The thousands separator of the \<^verbatim>\<open>,\<close> format option: a comma before every
  group of three digits, counted from the right.\<close>

fun commas :: "string \<Rightarrow> string" where
  "commas ds = (if length ds \<le> 3 then ds
                else commas (take (length ds - 3) ds) @ '','' @ drop (length ds - 3) ds)"

declare commas.simps [simp del]

text \<open>\<open>rhe_div a b\<close> is \<open>a / b\<close> rounded to the nearest integer, a tie to the even one
  (\<^verbatim>\<open>ROUND_HALF_EVEN\<close>, and the rounding of IEEE 754).\<close>

definition rhe_div :: "nat \<Rightarrow> nat \<Rightarrow> nat" where
  "rhe_div a b =
     (let q = a div b; r = a mod b
      in if 2 * r < b then q else if b < 2 * r then q + 1 else if even q then q else q + 1)"

text \<open>The magnitude of a decimal as a fraction of two naturals.\<close>

definition dec_frac :: "decimal \<Rightarrow> nat \<times> nat" where
  "dec_frac d = (if 0 \<le> exponent d then (coefficient d * 10 ^ nat (exponent d), 1)
                 else (coefficient d, 10 ^ nat (- exponent d)))"

definition sign_text :: "bool \<Rightarrow> string" where
  "sign_text s = (if s then ''-'' else [])"

text \<open>
  \<^verbatim>\<open>f'{bal:,.2f}'\<close> on a Decimal: rounded half-even to two places (the default
  context), the sign kept even when the rounded value is zero.
\<close>

definition dec_format_comma_2f :: "decimal \<Rightarrow> string" where
  "dec_format_comma_2f d =
     (let (a, b) = dec_frac d; cents = rhe_div (a * 100) b
      in sign_text (negative d) @
         commas (digits10 (cents div 100)) @ ''.'' @ two_digits (cents mod 100))"

text \<open>
  A Python \<^verbatim>\<open>float\<close> (IEEE 754 binary64): \<open>Finite s m e\<close> is \<open>(-1)^s * m * 2^e\<close>.
  \<^verbatim>\<open>float(d)\<close> is the double nearest to the decimal \<open>d\<close>, a tie going to the even
  significand; the significand has 53 bits, the exponent of its last bit is at least
  \<open>-1074\<close>, and a value of \<open>2^1024\<close> or more becomes an infinity.
\<close>

datatype pyfloat = Finite bool nat int | Infinite bool

fun bit_length :: "nat \<Rightarrow> nat" where
  "bit_length n = (if n = 0 then 0 else Suc (bit_length (n div 2)))"

declare bit_length.simps [simp del]

definition py_float :: "decimal \<Rightarrow> pyfloat" where
  "py_float d =
     (let (a, b) = dec_frac d
      in if a = 0 then Finite (negative d) 0 0
         else
           let e0 = int (bit_length a) - int (bit_length b);
               e = (if (if 0 \<le> e0 then b * 2 ^ nat e0 \<le> a else b \<le> a * 2 ^ nat (- e0))
                    then e0 else e0 - 1);
               u = max (e - 52) (- 1074);
               m = (if 0 \<le> u then rhe_div a (b * 2 ^ nat u) else rhe_div (a * 2 ^ nat (- u)) b)
           in if 971 < u \<or> (u = 971 \<and> m = 2 ^ 53) then Infinite (negative d)
              else Finite (negative d) m u)"

text \<open>\<^verbatim>\<open>f'{amount:.2f}'\<close> on a float: the exact binary value rounded half-even to
  two places.\<close>

definition float_format_2f :: "pyfloat \<Rightarrow> string" where
  "float_format_2f x =
     (case x of
        Infinite s \<Rightarrow> sign_text s @ ''inf''
      | Finite s m e \<Rightarrow>
          (let cents = (if 0 \<le> e then m * 2 ^ nat e * 100 else rhe_div (m * 100) (2 ^ nat (- e)))
           in sign_text s @ digits10 (cents div 100) @ ''.'' @ two_digits (cents mod 100)))"

subsection \<open>last\_n\_transactions\<close>

text \<open>The slice \<^verbatim>\<open>xs[i:]\<close>: a negative \<open>i\<close> counts from the end, and an index
  beyond either end is clipped.\<close>

definition slice_from :: "int \<Rightarrow> 'a list \<Rightarrow> 'a list" where
  "slice_from i xs = (if i < 0 then drop (length xs - nat (- i)) xs else drop (nat i) xs)"

text \<open>The library's \<^verbatim>\<open>Split.is_debit\<close>: a split is a debit when its value is
  positive (GnuCash stores a debit as a positive amount and a credit as a negative one).\<close>

definition is_debit :: "split \<Rightarrow> bool" where
  "is_debit s = (\<not> negative (split_value s) \<and> 0 < coefficient (split_value s))"

text \<open>The dictionary \<^verbatim>\<open>t\<close> built for one transaction.\<close>

record t_dict =
  t_date :: string
  t_source :: string
  t_dest :: string
  t_description :: string
  t_amount :: string

text \<open>Which split is the source and which the destination (lines 155 to 160); only
  called on a list of two splits.\<close>

definition source_dest :: "split list \<Rightarrow> split \<times> split" where
  "source_dest sp = (if is_debit (sp ! 0) then (sp ! 1, sp ! 0) else (sp ! 0, sp ! 1))"

definition display_amount :: "decimal \<Rightarrow> string" where
  "display_amount v =
     (let amount = (if is_signed v then dec_neg v else v)
      in ''$'' @ float_format_2f (py_float amount))"

definition make_t :: "transaction \<Rightarrow> t_dict" where
  "make_t txn =
     (let (source_acct, dest_acct) = source_dest (splits txn)
      in \<lparr>t_date = enter_date txn,
          t_source = fullname (split_account source_acct),
          t_dest = fullname (split_account dest_acct),
          t_description = description txn,
          t_amount = display_amount (split_value dest_acct)\<rparr>)"

text \<open>The \<^verbatim>\<open>for\<close> loop, with the list \<^verbatim>\<open>last_n\<close> as accumulator; the first branch is
  the \<^verbatim>\<open>continue\<close>.\<close>

fun last_n_loop :: "transaction list \<Rightarrow> t_dict list \<Rightarrow> t_dict list" where
  "last_n_loop [] last_n = last_n"
| "last_n_loop (txn # rest) last_n =
     (if length (splits txn) \<noteq> 2 then last_n_loop rest last_n
      else last_n_loop rest (last_n @ [make_t txn]))"

definition last_n_transactions :: "book \<Rightarrow> int \<Rightarrow> t_dict list" where
  "last_n_transactions b n =
     last_n_loop (rev (slice_from (- n) (transactions (session b)))) []"

subsection \<open>The transactions route\<close>

text \<open>
  \<^verbatim>\<open>int(x)\<close> for \<^verbatim>\<open>x\<close> a string or \<^verbatim>\<open>None\<close>. A string is stripped of ASCII
  whitespace and read as an optional sign and decimal digits, a single underscore
  allowed between two digits; digits and spaces beyond ASCII are not covered.
\<close>

definition is_digit :: "char \<Rightarrow> bool" where
  "is_digit c = (CHR ''0'' \<le> c \<and> c \<le> CHR ''9'')"

definition digit_val :: "char \<Rightarrow> nat" where
  "digit_val c = of_char c - 48"

definition is_space :: "char \<Rightarrow> bool" where
  "is_space c = (c \<in> set [CHR '' '', CHR 0x09, CHR 0x0A, CHR 0x0B, CHR 0x0C, CHR 0x0D])"

definition strip :: "string \<Rightarrow> string" where
  "strip s = rev (dropWhile is_space (rev (dropWhile is_space s)))"

fun parse_digits :: "string \<Rightarrow> nat \<Rightarrow> nat option" where
  "parse_digits [] acc = None"
| "parse_digits [c] acc = (if is_digit c then Some (acc * 10 + digit_val c) else None)"
| "parse_digits (c # c' # cs) acc =
     (if \<not> is_digit c then None
      else if c' = CHR ''_'' then parse_digits cs (acc * 10 + digit_val c)
      else parse_digits (c' # cs) (acc * 10 + digit_val c))"

definition py_int :: "string option \<Rightarrow> exn + int" where
  "py_int x =
     (case x of
        None \<Rightarrow> Inl (TypeError ''int() argument must be a string, a bytes-like object or a real number, not NoneType'')
      | Some s \<Rightarrow>
          (let t = strip s;
               (neg, ds) = (case t of
                    c # r \<Rightarrow> if c = CHR ''-'' then (True, r) else if c = CHR ''+'' then (False, r)
                             else (False, t)
                  | [] \<Rightarrow> (False, t))
           in case parse_digits ds 0 of
                None \<Rightarrow> Inl (ValueError ''invalid literal for int() with base 10'')
              | Some k \<Rightarrow> Inr (if neg then - int k else int k)))"

subsection \<open>Configuration\<close>

type_synonym environ = "string \<rightharpoonup> string"

datatype level = DEBUG | INFO | WARNING | ERROR | CRITICAL

text \<open>A log line: its severity and the text of the message, with the interpolated
  fields left as written in the source.\<close>

type_synonym log_line = "level \<times> string"

text \<open>\<open>get_env_var\<close> returns \<^verbatim>\<open>None\<close> when the variable is not set: the handler logs
  and falls through to the end of the function.\<close>

definition get_env_var :: "string \<Rightarrow> environ \<Rightarrow> string option \<times> log_line list" where
  \<open>get_env_var nm env =
     (case env nm of
        None \<Rightarrow> (None, [(CRITICAL, ''Could not get env. var. "{ke}". Make sure it is set'')])
      | Some env_var \<Rightarrow> (Some env_var, []))\<close>

definition get_book_name_from_env :: "environ \<Rightarrow> string outcome \<times> log_line list" where
  "get_book_name_from_env env =
     (case env ''GNUCASH_FILE'' of
        None \<Rightarrow> (Exits 1, [(CRITICAL, ''Could not get GnuCash book name from env. var. {ke}.'')])
      | Some book_name \<Rightarrow> (Returns book_name, []))"

definition get_gnucash_dir :: "environ \<Rightarrow> string outcome \<times> log_line list" where
  "get_gnucash_dir env =
     (case env ''GNUCASH_DIR'' of
        None \<Rightarrow> (Exits 1, [(CRITICAL, ''Error, could not get GnuCash directory {ke} from env var''),
                           (CRITICAL, ''Make sure to set $GNUCASH_DIR'')])
      | Some gnucash_dir \<Rightarrow> (Returns gnucash_dir, []))"

text \<open>
  Lines 100 to 105 of the route \<^verbatim>\<open>transactions\<close>, on the book that \<^verbatim>\<open>open_book\<close>
  returned: the listing and the number \<^verbatim>\<open>n\<close> handed to the template. \<^verbatim>\<open>int\<close> never
  returns \<^verbatim>\<open>None\<close>, so the branch that calls \<^verbatim>\<open>last_n_transactions(book)\<close> with the
  default is never taken and has no counterpart here.
\<close>

definition transactions_route ::
  "environ \<Rightarrow> book \<Rightarrow> (t_dict list \<times> int) outcome \<times> log_line list" where
  "transactions_route env b =
     (let (v, lg) = get_env_var ''NUM_TRANSACTIONS'' env
      in case py_int v of
           Inl e \<Rightarrow> (Raises e, lg)
         | Inr num_transactions \<Rightarrow>
             (Returns (last_n_transactions b num_transactions, num_transactions), lg))"

subsection \<open>add\_account\<close>

definition children :: "account \<Rightarrow> ledger \<Rightarrow> account list" where
  "children p l = filter (\<lambda>a. parent a = Some (fullname p)) (accounts l)"

definition new_account :: "string \<Rightarrow> account \<Rightarrow> commodity \<Rightarrow> account" where
  "new_account new_acct_name parent_account usd =
     \<lparr>name = new_acct_name,
      fullname = fullname parent_account @ '':'' @ new_acct_name,
      parent = Some (fullname parent_account),
      acct_type = ''EXPENSE'',
      acct_commodity = usd\<rparr>"

definition add_account_to_session :: "account \<Rightarrow> book \<Rightarrow> book" where
  "add_account_to_session a b = b\<lparr>session := (session b)\<lparr>accounts := accounts (session b) @ [a]\<rparr>\<rparr>"

text \<open>The argument \<^verbatim>\<open>currency\<close> is not used by the source either.\<close>

definition add_account ::
  "lib \<Rightarrow> book \<Rightarrow> string \<Rightarrow> string \<Rightarrow> string \<Rightarrow> bool outcome \<times> book" where
  "add_account L b new_acct_name parent_name currency_name =
     (case accounts_get L (session b) parent_name of
        Inl e \<Rightarrow> (Raises e, b)
      | Inr None \<Rightarrow> (Returns False, b)
      | Inr (Some parent_account) \<Rightarrow>
          if lower new_acct_name \<in> set (map (\<lambda>child. lower (name child)) (children parent_account (session b)))
          then (Returns False, b)
          else
            (case commodities_get L (session b) ''USD'' of
               Inl e \<Rightarrow> (Raises e, b)
             | Inr None \<Rightarrow> (Returns False, b)
             | Inr (Some usd) \<Rightarrow>
                 (case construct L of
                    Some e \<Rightarrow> (Raises e, b)
                  | None \<Rightarrow>
                      (let b1 = add_account_to_session (new_account new_acct_name parent_account usd) b
                       in case book_save L b1 of
                            Inl (GnucashException m) \<Rightarrow> (Exits 1, b1)
                          | Inl e \<Rightarrow> (Raises e, b1)
                          | Inr b2 \<Rightarrow> (Returns True, b2)))))"

subsection \<open>The balances route\<close>

text \<open>The arrow U+2794 between two spaces, in UTF-8.\<close>

definition arrow :: string where
  "arrow = [CHR '' '', CHR 0xE2, CHR 0x9E, CHR 0x94, CHR '' '']"

text \<open>\<^verbatim>\<open>fullname.replace(':', arrow)\<close>.\<close>

definition display_name :: "string \<Rightarrow> string" where
  "display_name fn = concat (map (\<lambda>c. if c = CHR '':'' then arrow else [c]) fn)"

record balance_row =
  b_fullname :: string
  b_balance :: string

definition balance_row_of :: "lib \<Rightarrow> ledger \<Rightarrow> account \<Rightarrow> balance_row" where
  "balance_row_of L l acc =
     \<lparr>b_fullname = display_name (fullname acc),
      b_balance = ''$'' @ dec_format_comma_2f (get_balance L l acc)\<rparr>"

definition balances :: "lib \<Rightarrow> book \<Rightarrow> balance_row list" where
  "balances L b =
     sort_key b_fullname (map (balance_row_of L (session b)) (accounts (session b)))"

subsection \<open>The shape of a balance string\<close>

text \<open>Digits with thousands separators: one to three digits, then groups of a comma and
  three digits.\<close>

fun grouped_digits :: "string \<Rightarrow> bool" where
  "grouped_digits s =
     (if length s \<le> 3 then s \<noteq> [] \<and> list_all is_digit s
      else grouped_digits (take (length s - 4) s) \<and> s ! (length s - 4) = CHR '','' \<and>
           list_all is_digit (drop (length s - 3) s))"

declare grouped_digits.simps [simp del]

text \<open>\<open><digits with thousands separators>.<2 digits>\<close>\<close>

definition money_text :: "string \<Rightarrow> bool" where
  "money_text s =
     (4 \<le> length s \<and> grouped_digits (take (length s - 3) s) \<and> s ! (length s - 3) = CHR ''.'' \<and>
      list_all is_digit (drop (length s - 2) s))"

definition balance_pattern :: "string \<Rightarrow> bool" where
  "balance_pattern s = (case s of [] \<Rightarrow> False | c # r \<Rightarrow> c = CHR ''$'' \<and> money_text r)"

subsection \<open>Example data\<close>

text \<open>The library's lookup of a list element by an attribute: the first match, and a
  \<^verbatim>\<open>KeyError\<close> when there is none.\<close>

definition first_match :: "('a \<Rightarrow> bool) \<Rightarrow> string \<Rightarrow> 'a list \<Rightarrow> exn + 'a option" where
  "first_match P key xs = (case find P xs of None \<Rightarrow> Inl (KeyError key) | Some x \<Rightarrow> Inr (Some x))"

definition dec_zero :: decimal where
  "dec_zero = \<lparr>negative = False, coefficient = 0, exponent = 0\<rparr>"

definition lib_ok :: lib where
  "lib_ok =
     \<lparr>currencies = (\<lambda>l m. Inr (Some m)),
      commodities_get = (\<lambda>l m. Inr (Some m)),
      accounts_get = (\<lambda>l fn. first_match (\<lambda>a. fullname a = fn) fn (accounts l)),
      construct = None,
      save = (\<lambda>l. None),
      now = ''2021-01-01'',
      get_balance = (\<lambda>l acc. dec_zero)\<rparr>"

text \<open>A library whose \<^verbatim>\<open>save\<close> fails, as on a book opened read-only.\<close>

definition lib_save_fails :: lib where
  "lib_save_fails = lib_ok\<lparr>save := (\<lambda>l. Some (GnucashException ''You cannot change the DB, it is locked !''))\<rparr>"

definition acct :: "string \<Rightarrow> string \<Rightarrow> string \<Rightarrow> account" where
  "acct p n ty = \<lparr>name = n, fullname = p @ '':'' @ n, parent = Some p, acct_type = ty, acct_commodity = ''USD''\<rparr>"

definition top_acct :: "string \<Rightarrow> string \<Rightarrow> account" where
  "top_acct n ty = \<lparr>name = n, fullname = n, parent = None, acct_type = ty, acct_commodity = ''USD''\<rparr>"

definition cash :: account where
  "cash = acct ''Assets'' ''Cash'' ''CASH''"

definition food :: account where
  "food = acct ''Expenses'' ''Food'' ''EXPENSE''"

definition cash_lowercase :: account where
  "cash_lowercase = acct ''assets'' ''cash'' ''CASH''"

definition opened :: "account list \<Rightarrow> transaction list \<Rightarrow> book" where
  "opened as ts = \<lparr>session = \<lparr>accounts = as, transactions = ts\<rparr>,
                   stored = \<lparr>accounts = as, transactions = ts\<rparr>\<rparr>"

text \<open>A book with the two accounts of the end-to-end scenario and no transaction.\<close>

definition book1 :: book where
  "book1 = opened [top_acct ''Assets'' ''ASSET'', cash, top_acct ''Expenses'' ''EXPENSE'', food] []"

text \<open>The same with an account \<^verbatim>\<open>assets:cash\<close> listed before \<^verbatim>\<open>Assets:Cash\<close>.\<close>

definition book_two_cash :: book where
  "book_two_cash = opened [top_acct ''assets'' ''ASSET'', cash_lowercase,
                           top_acct ''Assets'' ''ASSET'', cash, top_acct ''Expenses'' ''EXPENSE'', food] []"

definition dec :: "bool \<Rightarrow> nat \<Rightarrow> int \<Rightarrow> decimal" where
  "dec s c e = \<lparr>negative = s, coefficient = c, exponent = e\<rparr>"

text \<open>\<^verbatim>\<open>Decimal('12.50')\<close>\<close>

definition d12_50 :: decimal where
  "d12_50 = dec False 1250 (- 2)"

definition mk_txn :: "string \<Rightarrow> (decimal \<times> account) list \<Rightarrow> transaction" where
  "mk_txn descr sp = \<lparr>currency = Some ''USD'', description = descr, enter_date = ''2020-12-31'',
                    splits = map (\<lambda>(v, a). \<lparr>split_value = v, split_account = a\<rparr>) sp\<rparr>"

definition lunch :: transaction where
  "lunch = mk_txn ''Lunch'' [(d12_50, food), (dec_neg d12_50, cash)]"

definition dinner :: transaction where
  "dinner = mk_txn ''Dinner'' [(dec True 3000 (- 2), cash), (dec False 3000 (- 2), food)]"

text \<open>A transaction of three splits, as GnuCash writes for a split purchase.\<close>

definition groceries :: transaction where
  "groceries = mk_txn ''Groceries'' [(dec False 700 (- 2), food), (dec False 300 (- 2), food),
                                  (dec True 1000 (- 2), cash)]"

definition book_three :: book where
  "book_three = opened [cash, food] [lunch, groceries, dinner]"

text \<open>The absolute value of a decimal (\<^verbatim>\<open>copy_abs\<close>), to state what is displayed.\<close>

definition dec_abs :: "decimal \<Rightarrow> decimal" where
  "dec_abs d = d\<lparr>negative := False\<rparr>"

text \<open>The transaction that \<open>add_transaction\<close> builds for the lunch of the scenario, and
  the book after it.\<close>

definition lunch_today :: transaction where
  "lunch_today = new_transaction lib_ok (Some ''USD'') ''Lunch'' d12_50 food cash"

definition book1_lunch :: book where
  "book1_lunch = opened [top_acct ''Assets'' ''ASSET'', cash, top_acct ''Expenses'' ''EXPENSE'', food]
                        [lunch_today]"

definition book_two :: book where
  "book_two = opened [cash, food] [lunch, dinner]"

text \<open>A library that refuses the amount when the split is constructed.\<close>

definition lib_value_error :: lib where
  "lib_value_error = lib_ok\<lparr>construct := Some (ValueError ''The amount cannot be represented in GnuCash'')\<rparr>"

text \<open>Balances after the lunch: the cash account is overdrawn.\<close>

definition lib_after_lunch :: lib where
  "lib_after_lunch =
     lib_ok\<lparr>get_balance := (\<lambda>l acc. if fullname acc = ''Assets:Cash'' then dec True 1250 (- 2)
                                     else if fullname acc = ''Expenses:Food'' then d12_50
                                     else dec_zero)\<rparr>"

text \<open>The record that the listing shows for the dinner.\<close>

definition dinner_row :: t_dict where
  "dinner_row = \<lparr>t_date = ''2020-12-31'', t_source = ''Assets:Cash'', t_dest = ''Expenses:Food'',
      t_description = ''Dinner'', t_amount = ''$30.00''\<rparr>"

text \<open>The record that the listing shows for the lunch of the scenario, entered on the
  day \<open>today\<close>.\<close>

definition lunch_row :: "string \<Rightarrow> t_dict" where
  "lunch_row today = \<lparr>t_date = today, t_source = ''Assets:Cash'', t_dest = ''Expenses:Food'',
      t_description = ''Lunch'', t_amount = ''$12.50''\<rparr>"

section \<open>Proofs\<close>

lemmas example_defs = book1_def book_two_cash_def book_three_def book_two_def book1_lunch_def
  lunch_today_def opened_def cash_def food_def
  cash_lowercase_def acct_def top_acct_def d12_50_def dec_def mk_txn_def lunch_def dinner_def
  groceries_def lib_ok_def lib_save_fails_def lib_value_error_def lib_after_lunch_def
  first_match_def dec_zero_def

lemmas add_transaction_defs = add_transaction_def add_transaction_body_def get_account_def
  lower_def lower_char_def book_save_def add_to_session_def new_transaction_def dec_neg_def

subsection \<open>Decimals\<close>

lemma dec_val_neg: "dec_val (dec_neg d) = - dec_val d"
  by (simp add: dec_val_def dec_neg_def Let_def)

subsection \<open>add\_transaction\<close>

lemma add_transaction_True:
  assumes "add_transaction L b descr amount debit_acct credit_acct = (Returns (Some True), b')"
  obtains c d usd where "get_account credit_acct b = Some c" "get_account debit_acct b = Some d"
    "currencies L (session b) ''USD'' = Inr usd" "construct L = None"
    "b' = (add_to_session (new_transaction L usd descr amount c d) b)
            \<lparr>stored := session (add_to_session (new_transaction L usd descr amount c d) b)\<rparr>"
  using assms
  by (auto simp: add_transaction_def add_transaction_body_def book_save_def Let_def
      split: option.splits sum.splits outcome.splits exn.splits prod.splits)

lemma lunch_added:
  "add_transaction lib_ok book1 ''Lunch'' d12_50 ''Assets:Cash'' ''Expenses:Food'' =
     (Returns (Some True), book1_lunch)"
  by (simp add: add_transaction_defs example_defs)

text \<open>
  C1. A call of \<open>add_transaction\<close> that returns \<^verbatim>\<open>True\<close> has resolved both names and
  has appended one transaction with exactly two splits: the amount on the credit
  account and its negation on the debit account, which sum to zero; the book was saved.
\<close>

theorem add_transaction_two_balanced_splits:
  assumes "add_transaction L b descr amount debit_acct credit_acct = (Returns (Some True), b')"
  shows "\<exists>c d t. get_account credit_acct b = Some c \<and> get_account debit_acct b = Some d \<and>
           transactions (session b') = transactions (session b) @ [t] \<and>
           description t = descr \<and>
           splits t = [\<lparr>split_value = amount, split_account = c\<rparr>,
                       \<lparr>split_value = dec_neg amount, split_account = d\<rparr>] \<and>
           length (splits t) = 2 \<and>
           dec_val (split_value (splits t ! 0)) + dec_val (split_value (splits t ! 1)) = 0 \<and>
           stored b' = session b'"
  using assms
  by (elim add_transaction_True) (simp add: add_to_session_def new_transaction_def dec_val_neg)

theorem add_transaction_two_balanced_splits_witness:
  "add_transaction lib_ok book1 ''Lunch'' d12_50 ''Assets:Cash'' ''Expenses:Food'' =
     (Returns (Some True), book1_lunch) \<and>
   (\<exists>c d t. get_account ''Expenses:Food'' book1 = Some c \<and>
      get_account ''Assets:Cash'' book1 = Some d \<and>
      transactions (session book1_lunch) = transactions (session book1) @ [t] \<and>
      description t = ''Lunch'' \<and>
      splits t = [\<lparr>split_value = d12_50, split_account = c\<rparr>,
                  \<lparr>split_value = dec_neg d12_50, split_account = d\<rparr>] \<and>
      length (splits t) = 2 \<and>
      dec_val (split_value (splits t ! 0)) + dec_val (split_value (splits t ! 1)) = 0 \<and>
      stored book1_lunch = session book1_lunch)"
  using add_transaction_two_balanced_splits [OF lunch_added] lunch_added by blast

text \<open>When a name does not resolve, nothing is created or saved. The result is
  \<^verbatim>\<open>False\<close> when exactly one name is missing and \<^verbatim>\<open>None\<close> when both are.\<close>

lemma add_transaction_account_missing:
  assumes "get_account credit_acct b = None \<or> get_account debit_acct b = None"
  shows "add_transaction L b descr amount debit_acct credit_acct =
           (Returns (if get_account credit_acct b = None \<and> get_account debit_acct b = None
                     then None else Some False), b)"
  using assms
  by (auto simp: add_transaction_def add_transaction_body_def split: option.splits)

text \<open>
  C2. With two names that both fail to resolve, \<open>add_transaction\<close> leaves the book as
  it is but returns \<^verbatim>\<open>None\<close>, not \<^verbatim>\<open>False\<close>: no branch of the \<^verbatim>\<open>if\<close> chain covers
  the case and the function runs off its end.
\<close>

theorem add_transaction_neither_account_returns_None:
  "add_transaction lib_ok book1 ''Bad'' (dec False 500 (- 2)) ''NoSuchAccount'' ''NoSuchEither'' =
     (Returns None, book1)"
  by (simp add: add_transaction_defs example_defs)

lemma add_transaction_body_Raises_stored:
  assumes "add_transaction_body L b descr amount debit_acct credit_acct = (Raises e, b1)"
  shows "stored b1 = stored b"
  using assms
  by (auto simp: add_transaction_body_def book_save_def add_to_session_def Let_def
      split: option.splits sum.splits)

text \<open>
  C8, as amended. \<open>add_transaction\<close> does not look at the sign or the precision of the
  amount: for every amount, when both names resolve and no library call raises, it
  returns \<^verbatim>\<open>True\<close> and the new transaction is saved. A numeric value is reported as
  \<^verbatim>\<open>False\<close> only through an exception: when the body of the \<^verbatim>\<open>try\<close> raises
  \<^verbatim>\<open>ValueError\<close>, the call returns \<^verbatim>\<open>False\<close> and the saved ledger is unchanged.
\<close>

theorem add_transaction_amount_unchecked:
  "(get_account credit_acct b = Some c \<and> get_account debit_acct b = Some d \<and>
    currencies L (session b) ''USD'' = Inr usd \<and> construct L = None \<and> (\<forall>l. save L l = None) \<longrightarrow>
      (\<exists>b'. add_transaction L b descr amount debit_acct credit_acct = (Returns (Some True), b') \<and>
            transactions (stored b') =
              transactions (session b) @ [new_transaction L usd descr amount c d])) \<and>
   (add_transaction_body L b descr amount debit_acct credit_acct = (Raises (ValueError m), b1) \<longrightarrow>
      add_transaction L b descr amount debit_acct credit_acct = (Returns (Some False), b1) \<and>
      stored b1 = stored b)"
proof (intro conjI impI)
  assume "get_account credit_acct b = Some c \<and> get_account debit_acct b = Some d \<and>
    currencies L (session b) ''USD'' = Inr usd \<and> construct L = None \<and> (\<forall>l. save L l = None)"
  then show "\<exists>b'. add_transaction L b descr amount debit_acct credit_acct = (Returns (Some True), b') \<and>
            transactions (stored b') =
              transactions (session b) @ [new_transaction L usd descr amount c d]"
    by (simp add: add_transaction_def add_transaction_body_def book_save_def add_to_session_def)
next
  assume r: "add_transaction_body L b descr amount debit_acct credit_acct = (Raises (ValueError m), b1)"
  then show "add_transaction L b descr amount debit_acct credit_acct = (Returns (Some False), b1)"
    by (simp add: add_transaction_def)
  from r show "stored b1 = stored b"
    by (rule add_transaction_body_Raises_stored)
qed

theorem add_transaction_amount_unchecked_witness:
  "(get_account ''Expenses:Food'' book1 = Some food \<and> get_account ''Assets:Cash'' book1 = Some cash \<and>
    currencies lib_ok (session book1) ''USD'' = Inr (Some ''USD'') \<and> construct lib_ok = None \<and>
    (\<forall>l. save lib_ok l = None)) \<and>
   (\<exists>b'. add_transaction lib_ok book1 ''Refund'' (dec True 500 (- 2)) ''Assets:Cash'' ''Expenses:Food'' =
            (Returns (Some True), b') \<and>
          transactions (stored b') = transactions (session book1) @
            [new_transaction lib_ok (Some ''USD'') ''Refund'' (dec True 500 (- 2)) food cash]) \<and>
   add_transaction_body lib_value_error book1 ''Huge'' (dec False 1 30) ''Assets:Cash'' ''Expenses:Food'' =
     (Raises (ValueError ''The amount cannot be represented in GnuCash''), book1) \<and>
   add_transaction lib_value_error book1 ''Huge'' (dec False 1 30) ''Assets:Cash'' ''Expenses:Food'' =
     (Returns (Some False), book1) \<and>
   stored book1 = stored book1"
proof -
  have h1: "get_account ''Expenses:Food'' book1 = Some food \<and> get_account ''Assets:Cash'' book1 = Some cash \<and>
    currencies lib_ok (session book1) ''USD'' = Inr (Some ''USD'') \<and> construct lib_ok = None \<and>
    (\<forall>l. save lib_ok l = None)"
    by (simp add: get_account_def lower_def lower_char_def example_defs)
  have h2: "add_transaction_body lib_value_error book1 ''Huge'' (dec False 1 30) ''Assets:Cash'' ''Expenses:Food'' =
     (Raises (ValueError ''The amount cannot be represented in GnuCash''), book1)"
    by (simp add: add_transaction_defs example_defs)
  from add_transaction_amount_unchecked
    [where credit_acct = "''Expenses:Food''" and b = book1 and c = food
       and debit_acct = "''Assets:Cash''" and d = cash and L = lib_ok and usd = "Some ''USD''"
       and descr = "''Refund''" and amount = "dec True 500 (- 2)"]
    add_transaction_amount_unchecked
    [where credit_acct = "''Expenses:Food''" and b = book1 and debit_acct = "''Assets:Cash''"
       and L = lib_value_error and descr = "''Huge''" and amount = "dec False 1 30"
       and m = "''The amount cannot be represented in GnuCash''" and ?b1.0 = book1]
    h1 h2
  show ?thesis by blast
qed

theorem add_transaction_accepts_any_amount_counterexample:
  "fst (add_transaction lib_ok book1 ''Refund'' (dec True 500 (- 2)) ''Assets:Cash'' ''Expenses:Food'') =
     Returns (Some True) \<and>
   length (transactions (stored (snd (add_transaction lib_ok book1 ''Refund'' (dec True 500 (- 2))
      ''Assets:Cash'' ''Expenses:Food'')))) = 1 \<and>
   fst (add_transaction lib_ok book1 ''Gum'' (dec False 1234 (- 3)) ''Assets:Cash'' ''Expenses:Food'') =
     Returns (Some True) \<and>
   length (transactions (stored (snd (add_transaction lib_ok book1 ''Gum'' (dec False 1234 (- 3))
      ''Assets:Cash'' ''Expenses:Food'')))) = 1 \<and>
   transactions (stored book1) = []"
  by (simp add: add_transaction_defs example_defs)

subsection \<open>add\_account\<close>

text \<open>
  C10. When \<open>add_account\<close> has found the parent, no child of that name and the
  commodity, and the save raises a \<^verbatim>\<open>GnucashException\<close>, the process exits with
  status 1. In \<open>add_transaction\<close>, a save that raises the same exception gives the
  result \<^verbatim>\<open>False\<close>.
\<close>

theorem add_account_save_error_exits:
  assumes "accounts_get L (session b) parent_name = Inr (Some p)"
    and "lower new_acct_name \<notin> set (map (\<lambda>child. lower (name child)) (children p (session b)))"
    and "commodities_get L (session b) ''USD'' = Inr (Some usd)"
    and "get_account credit_acct b = Some c" and "get_account debit_acct b = Some d"
    and "currencies L (session b) ''USD'' = Inr u"
    and "construct L = None"
    and "\<forall>l. save L l = Some (GnucashException m)"
  shows "fst (add_account L b new_acct_name parent_name currency_name) = Exits 1 \<and>
         fst (add_transaction L b descr amount debit_acct credit_acct) = Returns (Some False)"
  using assms
  by (simp add: add_account_def add_transaction_def add_transaction_body_def book_save_def)

theorem add_account_save_error_exits_witness:
  "accounts_get lib_save_fails (session book1) ''Expenses'' = Inr (Some (top_acct ''Expenses'' ''EXPENSE'')) \<and>
   lower ''Rent'' \<notin> set (map (\<lambda>child. lower (name child))
      (children (top_acct ''Expenses'' ''EXPENSE'') (session book1))) \<and>
   commodities_get lib_save_fails (session book1) ''USD'' = Inr (Some ''USD'') \<and>
   get_account ''Expenses:Food'' book1 = Some food \<and> get_account ''Assets:Cash'' book1 = Some cash \<and>
   currencies lib_save_fails (session book1) ''USD'' = Inr (Some ''USD'') \<and>
   construct lib_save_fails = None \<and>
   (\<forall>l. save lib_save_fails l = Some (GnucashException ''You cannot change the DB, it is locked !'')) \<and>
   fst (add_account lib_save_fails book1 ''Rent'' ''Expenses'' ''USD'') = Exits 1 \<and>
   fst (add_transaction lib_save_fails book1 ''Lunch'' d12_50 ''Assets:Cash'' ''Expenses:Food'') =
     Returns (Some False)"
proof -
  have h: "accounts_get lib_save_fails (session book1) ''Expenses'' = Inr (Some (top_acct ''Expenses'' ''EXPENSE''))"
    "lower ''Rent'' \<notin> set (map (\<lambda>child. lower (name child))
      (children (top_acct ''Expenses'' ''EXPENSE'') (session book1)))"
    "commodities_get lib_save_fails (session book1) ''USD'' = Inr (Some ''USD'')"
    "get_account ''Expenses:Food'' book1 = Some food" "get_account ''Assets:Cash'' book1 = Some cash"
    "currencies lib_save_fails (session book1) ''USD'' = Inr (Some ''USD'')"
    "construct lib_save_fails = None"
    "\<forall>l. save lib_save_fails l = Some (GnucashException ''You cannot change the DB, it is locked !'')"
    by (simp_all add: get_account_def lower_def lower_char_def children_def example_defs)
  from add_account_save_error_exits
    [OF h, where currency_name = "''USD''" and descr = "''Lunch''"
       and amount = d12_50] h
  show ?thesis by simp
qed

subsection \<open>last\_n\_transactions\<close>

lemma last_n_loop_eq:
  "last_n_loop ts acc = acc @ map make_t (filter (\<lambda>t. length (splits t) = 2) ts)"
  by (induction ts arbitrary: acc) simp_all

lemma set_slice_from: "set (slice_from i xs) \<subseteq> set xs"
  by (simp add: slice_from_def set_drop_subset)

lemma slice_from_last: "0 < n \<Longrightarrow> slice_from (- n) xs = drop (length xs - nat n) xs"
  by (simp add: slice_from_def)

lemma slice_from_zero: "slice_from 0 xs = xs"
  by (simp add: slice_from_def)

text \<open>For a positive \<open>n\<close> the listing is what the docstring says: the records of the
  last \<open>n\<close> transactions, most recent first, without those that do not have two splits;
  it is shorter than \<open>n\<close> only if the book holds fewer than \<open>n\<close> transactions or one of
  the last \<open>n\<close> was skipped.\<close>

lemma last_n_transactions_positive:
  assumes "0 < n"
  shows "last_n_transactions b n =
           map make_t (filter (\<lambda>t. length (splits t) = 2)
             (rev (drop (length (transactions (session b)) - nat n) (transactions (session b)))))"
    and "length (last_n_transactions b n) \<le> nat n"
    and "length (last_n_transactions b n) < nat n \<Longrightarrow>
           length (transactions (session b)) < nat n \<or>
           (\<exists>t \<in> set (drop (length (transactions (session b)) - nat n) (transactions (session b))).
              length (splits t) \<noteq> 2)"
proof -
  let ?ts = "transactions (session b)"
  let ?last = "drop (length ?ts - nat n) ?ts"
  show eq: "last_n_transactions b n = map make_t (filter (\<lambda>t. length (splits t) = 2) (rev ?last))"
    using assms by (simp add: last_n_transactions_def last_n_loop_eq slice_from_last)
  have "length (filter (\<lambda>t. length (splits t) = 2) (rev ?last)) \<le> length (rev ?last)"
    by (rule length_filter_le)
  then show "length (last_n_transactions b n) \<le> nat n"
    by (simp add: eq)
  assume short: "length (last_n_transactions b n) < nat n"
  show "length ?ts < nat n \<or> (\<exists>t \<in> set ?last. length (splits t) \<noteq> 2)"
  proof (rule disjCI)
    assume "\<not> (\<exists>t \<in> set ?last. length (splits t) \<noteq> 2)"
    then have "filter (\<lambda>t. length (splits t) = 2) (rev ?last) = rev ?last"
      by (simp add: filter_id_conv)
    with short have "length ?last < nat n"
      by (simp add: eq)
    then show "length ?ts < nat n"
      by simp
  qed
qed

text \<open>
  C3. With \<open>n = 0\<close> the slice \<^verbatim>\<open>book.transactions[-0:]\<close> is the whole list: on a book
  of two well-formed transactions the listing has two records, not at most zero.
\<close>

theorem last_n_transactions_zero_returns_all:
  "map t_description (last_n_transactions book_two 0) = [''Dinner'', ''Lunch''] \<and>
   length (last_n_transactions book_two 0) = 2"
  by (simp add: last_n_transactions_def slice_from_def last_n_loop_eq make_t_def source_dest_def
      Let_def example_defs split: prod.splits)

text \<open>
  C7. The listing is made of the records of the transactions that have exactly two
  splits, among those the slice selects and in their order: one with another number of
  splits contributes nothing and the loop goes on with the next. The function is total:
  no transaction makes it raise.
\<close>

theorem last_n_transactions_skips_malformed:
  "last_n_transactions b n =
     map make_t (filter (\<lambda>t. length (splits t) = 2)
       (rev (slice_from (- n) (transactions (session b)))))"
  by (simp add: last_n_transactions_def last_n_loop_eq)

theorem last_n_transactions_skips_malformed_witness:
  "length (splits groceries) = 3 \<and>
   rev (slice_from (- 3) (transactions (session book_three))) = [dinner, groceries, lunch] \<and>
   last_n_transactions book_three 3 = [make_t dinner, make_t lunch]"
  using last_n_transactions_skips_malformed [of book_three 3]
  by (simp add: slice_from_def book_three_def opened_def groceries_def lunch_def dinner_def mk_txn_def)

lemma is_debit_iff: "is_debit s \<longleftrightarrow> 0 < dec_val (split_value s)"
  by (auto simp: is_debit_def dec_val_def Let_def zero_less_mult_iff zero_less_divide_iff
      mult_less_0_iff divide_less_0_iff)

lemma display_amount_abs:
  "display_amount v = ''$'' @ float_format_2f (py_float (dec_abs v))"
  by (cases v) (simp add: display_amount_def is_signed_def dec_neg_def dec_abs_def Let_def)

lemma dec_val_abs: "dec_val (dec_abs d) = \<bar>dec_val d\<bar>"
proof -
  define m :: rat where
    "m = (if 0 \<le> exponent d then of_nat (coefficient d) * 10 ^ nat (exponent d)
          else of_nat (coefficient d) / 10 ^ nat (- exponent d))"
  have "0 \<le> m"
    by (simp add: m_def)
  moreover have "dec_val d = (if negative d then - m else m)"
    by (simp add: dec_val_def m_def)
  moreover have "dec_val (dec_abs d) = m"
    by (simp add: dec_val_def dec_abs_def m_def)
  ultimately show ?thesis
    by simp
qed

text \<open>What \<open>make_t\<close> does with a balanced pair of splits.\<close>

lemma make_t_balanced:
  assumes sp: "splits t = [s0, s1]"
    and bal: "dec_val (split_value s0) + dec_val (split_value s1) = 0"
  shows "\<exists>src dst. (splits t = [src, dst] \<or> splits t = [dst, src]) \<and>
           t_source (make_t t) = fullname (split_account src) \<and>
           t_dest (make_t t) = fullname (split_account dst) \<and>
           dec_val (split_value src) \<le> 0 \<and> 0 \<le> dec_val (split_value dst) \<and>
           t_amount (make_t t) = ''$'' @ float_format_2f (py_float (dec_abs (split_value dst)))"
proof (cases "is_debit s0")
  case True
  then have "0 < dec_val (split_value s0)" by (simp add: is_debit_iff)
  with bal have v: "dec_val (split_value s1) \<le> 0" "0 \<le> dec_val (split_value s0)" by simp_all
  from True sp have m: "t_source (make_t t) = fullname (split_account s1)"
    "t_dest (make_t t) = fullname (split_account s0)"
    "t_amount (make_t t) = ''$'' @ float_format_2f (py_float (dec_abs (split_value s0)))"
    by (simp_all add: make_t_def source_dest_def display_amount_abs)
  show ?thesis
    by (rule exI [of _ s1], rule exI [of _ s0]) (simp only: sp v m simp_thms)
next
  case False
  then have "dec_val (split_value s0) \<le> 0" by (simp add: is_debit_iff)
  with bal have v: "dec_val (split_value s0) \<le> 0" "0 \<le> dec_val (split_value s1)" by simp_all
  from False sp have m: "t_source (make_t t) = fullname (split_account s0)"
    "t_dest (make_t t) = fullname (split_account s1)"
    "t_amount (make_t t) = ''$'' @ float_format_2f (py_float (dec_abs (split_value s1)))"
    by (simp_all add: make_t_def source_dest_def display_amount_abs)
  show ?thesis
    by (rule exI [of _ s0], rule exI [of _ s1]) (simp only: sp v m simp_thms)
qed

text \<open>
  C6. In a book whose transactions are balanced (the values of the splits of each sum
  to zero, the invariant of the data model), every record of the listing comes from a
  transaction of two splits, one classified as source and the other as destination: the
  source has a value of at most zero and the destination a value of at least zero, so a
  split of negative value is the source and the other one the destination. The amount
  shown is \<^verbatim>\<open>$\<close> followed by the two-decimal text of the absolute value of the
  destination's value.
\<close>

theorem last_n_transactions_source_dest_amount:
  assumes "\<forall>t \<in> set (transactions (session b)).
             sum_list (map (\<lambda>s. dec_val (split_value s)) (splits t)) = 0"
    and "r \<in> set (last_n_transactions b n)"
  shows "\<exists>t src dst. t \<in> set (transactions (session b)) \<and>
           (splits t = [src, dst] \<or> splits t = [dst, src]) \<and>
           t_source r = fullname (split_account src) \<and>
           t_dest r = fullname (split_account dst) \<and>
           dec_val (split_value src) \<le> 0 \<and> 0 \<le> dec_val (split_value dst) \<and>
           (\<forall>s \<in> set (splits t). dec_val (split_value s) < 0 \<longrightarrow> s = src) \<and>
           t_amount r = ''$'' @ float_format_2f (py_float (dec_abs (split_value dst)))"
proof -
  from assms(2) obtain t where t: "t \<in> set (slice_from (- n) (transactions (session b)))"
    and two: "length (splits t) = 2" and r: "r = make_t t"
    by (auto simp: last_n_transactions_def last_n_loop_eq)
  from set_slice_from [of "- n" "transactions (session b)"] t
  have mem: "t \<in> set (transactions (session b))"
    by (rule subsetD)
  from two obtain s0 s1 where sp: "splits t = [s0, s1]"
    by (auto simp: length_Suc_conv numeral_2_eq_2)
  from assms(1) mem have "sum_list (map (\<lambda>s. dec_val (split_value s)) (splits t)) = 0"
    by blast
  with sp have bal: "dec_val (split_value s0) + dec_val (split_value s1) = 0"
    by simp
  from make_t_balanced [OF sp bal] obtain src dst where
    f: "splits t = [src, dst] \<or> splits t = [dst, src]"
      "t_source (make_t t) = fullname (split_account src)"
      "t_dest (make_t t) = fullname (split_account dst)"
      "dec_val (split_value src) \<le> 0" "0 \<le> dec_val (split_value dst)"
      "t_amount (make_t t) = ''$'' @ float_format_2f (py_float (dec_abs (split_value dst)))"
    by blast
  from f(1,5) have neg: "\<forall>s \<in> set (splits t). dec_val (split_value s) < 0 \<longrightarrow> s = src"
    by auto
  show ?thesis
  proof (intro exI conjI)
    show "t \<in> set (transactions (session b))" by (rule mem)
    show "splits t = [src, dst] \<or> splits t = [dst, src]" by (rule f(1))
    show "t_source r = fullname (split_account src)" using f(2) r by simp
    show "t_dest r = fullname (split_account dst)" using f(3) r by simp
    show "dec_val (split_value src) \<le> 0" by (rule f(4))
    show "0 \<le> dec_val (split_value dst)" by (rule f(5))
    show "\<forall>s \<in> set (splits t). dec_val (split_value s) < 0 \<longrightarrow> s = src" by (rule neg)
    show "t_amount r = ''$'' @ float_format_2f (py_float (dec_abs (split_value dst)))"
      using f(6) r by simp
  qed
qed

subsection \<open>Amounts of the examples, evaluated\<close>

lemma py_float_30: "py_float (dec False 3000 (- 2)) = Finite False 8444249301319680 (- 48)"
  apply (simp add: py_float_def dec_frac_def dec_def)
  apply (simp add: bit_length.simps)
  apply (simp add: rhe_div_def)
  done

lemma py_float_12_50: "py_float (dec False 1250 (- 2)) = Finite False 7036874417766400 (- 49)"
  apply (simp add: py_float_def dec_frac_def dec_def)
  apply (simp add: bit_length.simps)
  apply (simp add: rhe_div_def)
  done

lemma display_amount_30: "display_amount (dec False 3000 (- 2)) = ''$30.00''"
  apply (simp add: display_amount_def is_signed_def py_float_30)
  apply (simp add: dec_def float_format_2f_def rhe_div_def digits10.simps two_digits_def
      digit_char_def sign_text_def)
  done

lemma display_amount_12_50: "display_amount d12_50 = ''$12.50''"
  apply (simp add: display_amount_def is_signed_def d12_50_def py_float_12_50)
  apply (simp add: dec_def float_format_2f_def rhe_div_def digits10.simps two_digits_def
      digit_char_def sign_text_def)
  done

lemma make_t_dinner: "make_t dinner = dinner_row"
  by (simp add: make_t_def source_dest_def is_debit_def dinner_def mk_txn_def display_amount_30
      dinner_row_def cash_def food_def acct_def) (simp add: dec_def)

lemma last_of_book_three: "last_n_transactions book_three 1 = [dinner_row]"
  by (simp add: last_n_transactions_def slice_from_def book_three_def opened_def
      make_t_dinner) (simp add: dinner_def mk_txn_def)

lemma book_three_balanced:
  "\<forall>t \<in> set (transactions (session book_three)).
      sum_list (map (\<lambda>s. dec_val (split_value s)) (splits t)) = 0"
  by (simp add: example_defs dec_val_def dec_neg_def)

theorem last_n_transactions_source_dest_amount_witness:
  "(\<forall>t \<in> set (transactions (session book_three)).
      sum_list (map (\<lambda>s. dec_val (split_value s)) (splits t)) = 0) \<and>
   dinner_row \<in> set (last_n_transactions book_three 1) \<and>
   (\<exists>t src dst. t \<in> set (transactions (session book_three)) \<and>
      (splits t = [src, dst] \<or> splits t = [dst, src]) \<and>
      t_source dinner_row = fullname (split_account src) \<and>
      t_dest dinner_row = fullname (split_account dst) \<and>
      dec_val (split_value src) \<le> 0 \<and> 0 \<le> dec_val (split_value dst) \<and>
      (\<forall>s \<in> set (splits t). dec_val (split_value s) < 0 \<longrightarrow> s = src) \<and>
      t_amount dinner_row = ''$'' @ float_format_2f (py_float (dec_abs (split_value dst))))"
proof -
  have m: "dinner_row \<in> set (last_n_transactions book_three 1)"
    by (simp add: last_of_book_three)
  show ?thesis
    by (rule conjI [OF book_three_balanced
          conjI [OF m last_n_transactions_source_dest_amount [OF book_three_balanced m]]])
qed

subsection \<open>Round trip\<close>

lemma slice_from_last_one: "slice_from (- 1) (xs @ [x]) = [x]"
  by (simp add: slice_from_def)

lemma make_t_new_transaction:
  "make_t (new_transaction L usd descr d12_50 c d) =
     \<lparr>t_date = now L, t_source = fullname d, t_dest = fullname c, t_description = descr,
      t_amount = ''$12.50''\<rparr>"
  by (simp add: make_t_def new_transaction_def source_dest_def is_debit_def display_amount_12_50)
     (simp add: d12_50_def dec_def)

text \<open>
  C4, as amended. If the names \<^verbatim>\<open>Assets:Cash\<close> and \<^verbatim>\<open>Expenses:Food\<close> resolve to the
  accounts of exactly these full names and \<open>add_transaction\<close> returns \<^verbatim>\<open>True\<close> for the
  lunch of 12.50, then the listing of the last transaction is the single record with this
  source, this destination, the amount \<^verbatim>\<open>$12.50\<close> and the description.
\<close>

theorem lunch_round_trip:
  assumes "add_transaction L b ''Lunch'' d12_50 ''Assets:Cash'' ''Expenses:Food'' =
             (Returns (Some True), b')"
    and "map_option fullname (get_account ''Assets:Cash'' b) = Some ''Assets:Cash''"
    and "map_option fullname (get_account ''Expenses:Food'' b) = Some ''Expenses:Food''"
  shows "last_n_transactions b' 1 = [lunch_row (now L)]"
proof -
  from assms(1) obtain c d usd where
    c: "get_account ''Expenses:Food'' b = Some c" and d: "get_account ''Assets:Cash'' b = Some d"
    and b': "b' = (add_to_session (new_transaction L usd ''Lunch'' d12_50 c d) b)
            \<lparr>stored := session (add_to_session (new_transaction L usd ''Lunch'' d12_50 c d) b)\<rparr>"
    by (rule add_transaction_True)
  from c assms(3) have fc: "fullname c = ''Expenses:Food''" by simp
  from d assms(2) have fd: "fullname d = ''Assets:Cash''" by simp
  have ts: "transactions (session b') =
              transactions (session b) @ [new_transaction L usd ''Lunch'' d12_50 c d]"
    by (simp add: b' add_to_session_def)
  have two: "length (splits (new_transaction L usd ''Lunch'' d12_50 c d)) = 2"
    by (simp add: new_transaction_def)
  have "last_n_transactions b' 1 = [make_t (new_transaction L usd ''Lunch'' d12_50 c d)]"
    unfolding last_n_transactions_def ts slice_from_last_one using two by simp
  then show ?thesis
    by (simp only: make_t_new_transaction fc fd lunch_row_def)
qed

lemma lunch_resolves:
  "map_option fullname (get_account ''Assets:Cash'' book1) = Some ''Assets:Cash''"
  "map_option fullname (get_account ''Expenses:Food'' book1) = Some ''Expenses:Food''"
  by (simp_all add: get_account_def lower_def lower_char_def example_defs)

theorem lunch_round_trip_witness:
  "add_transaction lib_ok book1 ''Lunch'' d12_50 ''Assets:Cash'' ''Expenses:Food'' =
     (Returns (Some True), book1_lunch) \<and>
   map_option fullname (get_account ''Assets:Cash'' book1) = Some ''Assets:Cash'' \<and>
   map_option fullname (get_account ''Expenses:Food'' book1) = Some ''Expenses:Food'' \<and>
   last_n_transactions book1_lunch 1 = [lunch_row (now lib_ok)]"
  by (intro conjI lunch_added lunch_resolves lunch_round_trip [OF lunch_added lunch_resolves])

text \<open>In \<open>book_two_cash\<close> the account \<^verbatim>\<open>assets:cash\<close> comes first, the lookup without
  regard to case returns it, and the record names it as the source.\<close>

theorem lunch_round_trip_counterexample:
  "cash \<in> set (accounts (session book_two_cash)) \<and> fullname cash = ''Assets:Cash'' \<and>
   food \<in> set (accounts (session book_two_cash)) \<and> fullname food = ''Expenses:Food'' \<and>
   fst (add_transaction lib_ok book_two_cash ''Lunch'' d12_50 ''Assets:Cash'' ''Expenses:Food'') =
     Returns (Some True) \<and>
   map t_source (last_n_transactions
     (snd (add_transaction lib_ok book_two_cash ''Lunch'' d12_50 ''Assets:Cash'' ''Expenses:Food'')) 1) =
     [''assets:cash'']"
proof -
  have r: "add_transaction lib_ok book_two_cash ''Lunch'' d12_50 ''Assets:Cash'' ''Expenses:Food'' =
      (Returns (Some True),
       opened (accounts (session book_two_cash))
              [new_transaction lib_ok (Some ''USD'') ''Lunch'' d12_50 food cash_lowercase])"
    by (simp add: add_transaction_def add_transaction_body_def get_account_def lower_def
        lower_char_def book_save_def add_to_session_def book_two_cash_def opened_def cash_def
        food_def cash_lowercase_def acct_def top_acct_def lib_ok_def)
  have l: "last_n_transactions (opened (accounts (session book_two_cash))
              [new_transaction lib_ok (Some ''USD'') ''Lunch'' d12_50 food cash_lowercase]) 1 =
           [make_t (new_transaction lib_ok (Some ''USD'') ''Lunch'' d12_50 food cash_lowercase)]"
    by (simp add: last_n_transactions_def slice_from_def opened_def new_transaction_def)
  have a: "cash \<in> set (accounts (session book_two_cash))" "fullname cash = ''Assets:Cash''"
    "food \<in> set (accounts (session book_two_cash))" "fullname food = ''Expenses:Food''"
    by (simp_all add: book_two_cash_def opened_def cash_def food_def acct_def)
  show ?thesis
    by (simp add: a r l make_t_new_transaction) (simp add: cash_lowercase_def acct_def)
qed

subsection \<open>Configuration\<close>

text \<open>
  C9, as amended. When the directory or the file name of the ledger is missing from the
  environment, reading it logs at critical severity and exits with status 1. When another
  variable, such as the number of transactions to display, is missing, \<open>get_env_var\<close>
  logs at critical severity and returns \<^verbatim>\<open>None\<close>: the process goes on.
\<close>

theorem missing_configuration:
  "(env ''GNUCASH_DIR'' = None \<longrightarrow>
      fst (get_gnucash_dir env) = Exits 1 \<and>
      map fst (snd (get_gnucash_dir env)) = [CRITICAL, CRITICAL]) \<and>
   (env ''GNUCASH_FILE'' = None \<longrightarrow>
      fst (get_book_name_from_env env) = Exits 1 \<and>
      map fst (snd (get_book_name_from_env env)) = [CRITICAL]) \<and>
   (env nm = None \<longrightarrow>
      fst (get_env_var nm env) = None \<and> map fst (snd (get_env_var nm env)) = [CRITICAL])"
  by (simp add: get_gnucash_dir_def get_book_name_from_env_def get_env_var_def)

theorem missing_configuration_witness:
  "Map.empty ''GNUCASH_DIR'' = (None :: string option) \<and>
   fst (get_gnucash_dir Map.empty) = Exits 1 \<and>
   map fst (snd (get_gnucash_dir Map.empty)) = [CRITICAL, CRITICAL] \<and>
   Map.empty ''GNUCASH_FILE'' = (None :: string option) \<and>
   fst (get_book_name_from_env Map.empty) = Exits 1 \<and>
   map fst (snd (get_book_name_from_env Map.empty)) = [CRITICAL] \<and>
   Map.empty ''NUM_TRANSACTIONS'' = (None :: string option) \<and>
   fst (get_env_var ''NUM_TRANSACTIONS'' Map.empty) = None \<and>
   map fst (snd (get_env_var ''NUM_TRANSACTIONS'' Map.empty)) = [CRITICAL]"
  using missing_configuration [of Map.empty "''NUM_TRANSACTIONS''"] by simp

text \<open>Without \<^verbatim>\<open>NUM_TRANSACTIONS\<close> the read returns \<^verbatim>\<open>None\<close>, and the route raises
  a \<^verbatim>\<open>TypeError\<close> from \<^verbatim>\<open>int(None)\<close>; neither leaves the process.\<close>

theorem missing_num_transactions_counterexample:
  "fst (get_env_var ''NUM_TRANSACTIONS'' Map.empty) = None \<and>
   fst (transactions_route Map.empty book_two) =
     Raises (TypeError ''int() argument must be a string, a bytes-like object or a real number, not NoneType'') \<and>
   map fst (snd (transactions_route Map.empty book_two)) = [CRITICAL]"
  by (simp add: transactions_route_def get_env_var_def py_int_def)

text \<open>With the variable set, the route lists that many transactions.\<close>

lemma transactions_route_set:
  "fst (transactions_route [''NUM_TRANSACTIONS'' \<mapsto> '' 2''] book_three) =
     Returns (last_n_transactions book_three 2, 2)"
  by (simp add: transactions_route_def get_env_var_def py_int_def strip_def is_space_def
      is_digit_def digit_val_def)

end
